theory Spec2Isabelle
  imports Complex_Main "HOL-Library.Word" "HOL-Library.Sublist"
begin

unbundle bit_operations_syntax

section \<open>Values shared by all demo variants\<close>

text \<open>
  The scripts are JavaScript over the ethers library. A \<open>BigInt\<close> is an unbounded
  integer (\<open>int\<close>), an account or contract address is a 160-bit value, a \<open>bytes32\<close>
  is a 256-bit value and a byte string is a list of 8-bit words. Everything that can
  throw returns a sum, with \<open>Inl\<close> for the thrown value.
\<close>

type_synonym byte = "8 word"
type_synonym bytes32 = "256 word"
type_synonym address = "160 word"

definition WETH_ADDRESS :: address where
  "WETH_ADDRESS = 0xC02aaA39b223FE8D0A0e5C4F27eAD9083C756Cc2"

definition USDC_ADDRESS :: address where
  "USDC_ADDRESS = 0xA0b86991c6218b36c1d19D4a2e9Eb0cE3606eB48"

definition LIMIT_ORDER_PROTOCOL :: address where
  "LIMIT_ORDER_PROTOCOL = 0x111111125421ca6dc452d289314280a0f8842a65"

definition UNISWAP_ROUTER :: address where
  "UNISWAP_ROUTER = 0x7a250d5630B4cF539739dF2C5dAcb4c659F2488D"

text \<open>
  What a \<open>throw\<close> carries. The source throws \<open>Error\<close> objects whose message is built
  from the two amounts; the constructors keep the amounts. \<open>External\<close> is any error
  raised by the wallet, the provider, a contract call or a library routine.
\<close>

datatype error =
    InsufficientWETH int int
  | InsufficientUSDC int int
  | ApprovalFailed int int
  | NoOrderData
  | NoSignature
  | ValueOutOfRange int
  | OutOfResultRange
  | External string

section \<open>Order struct, ABI encoding and the two order hashes\<close>

record order =
  salt :: int
  maker :: address
  receiver :: address
  makerAsset :: address
  takerAsset :: address
  makingAmount :: int
  takingAmount :: int
  makerTraits :: int

record domain =
  name :: string
  version :: string
  chainId :: int
  verifyingContract :: address

text \<open>Big-endian bytes of an integer, the given number of them.\<close>

fun be_bytes :: "nat \<Rightarrow> int \<Rightarrow> byte list" where
  "be_bytes 0 v = []"
| "be_bytes (Suc n) v = be_bytes n (v div 256) @ [word_of_int v]"

text \<open>
  \<open>AbiCoder.encode\<close> on the static types the scripts use: every value is one 32-byte
  word; a \<open>uint256\<close> outside its range makes the coder throw.
\<close>

definition abi_uint256 :: "int \<Rightarrow> error + byte list" where
  "abi_uint256 v = (if 0 \<le> v \<and> v < 2 ^ 256 then Inr (be_bytes 32 v) else Inl (ValueOutOfRange v))"

definition abi_address :: "address \<Rightarrow> byte list" where
  "abi_address a = be_bytes 32 (uint a)"

definition abi_bytes32 :: "bytes32 \<Rightarrow> byte list" where
  "abi_bytes32 h = be_bytes 32 (uint h)"

definition toUtf8Bytes :: "string \<Rightarrow> byte list" where
  "toUtf8Bytes s = map (\<lambda>c. of_nat (of_char c)) s"

text \<open>Sequencing of computations that may throw, without effects.\<close>

definition sbind :: "error + 'a \<Rightarrow> ('a \<Rightarrow> error + 'b) \<Rightarrow> error + 'b" where
  "sbind m f = (case m of Inl e \<Rightarrow> Inl e | Inr a \<Rightarrow> f a)"

text \<open>
  The eight order fields, encoded in the order the source lists them. The coder encodes
  the values left to right, so the first field out of range is the one reported.
\<close>

definition encodeOrderFields :: "order \<Rightarrow> error + byte list" where
  "encodeOrderFields ord =
     sbind (abi_uint256 (salt ord)) (\<lambda>s.
     sbind (abi_uint256 (makingAmount ord)) (\<lambda>ma.
     sbind (abi_uint256 (takingAmount ord)) (\<lambda>ta.
     sbind (abi_uint256 (makerTraits ord)) (\<lambda>mt.
       Inr (s @ abi_address (maker ord) @ abi_address (receiver ord)
              @ abi_address (makerAsset ord) @ abi_address (takerAsset ord)
              @ ma @ ta @ mt)))))"

text \<open>
  \<open>ethers.keccak256\<close> is library code: the hash is a parameter \<open>H\<close> of both
  functions.

  \<open>ManualLimitOrderDemo.createOrderHash\<close>: the hash of the encoded fields.
\<close>

definition createOrderHash :: "(byte list \<Rightarrow> bytes32) \<Rightarrow> order \<Rightarrow> error + bytes32" where
  "createOrderHash H ord = sbind (encodeOrderFields ord) (\<lambda>encoded. Inr (H encoded))"

definition EIP712DOMAIN_TYPE :: string where
  "EIP712DOMAIN_TYPE =
     ''EIP712Domain(string name,string version,uint256 chainId,address verifyingContract)''"

definition ORDER_TYPE_STRING :: string where
  "ORDER_TYPE_STRING =
     ''Order(uint256 salt,address maker,address receiver,address makerAsset,address takerAsset,uint256 makingAmount,uint256 takingAmount,uint256 makerTraits)''"

text \<open>The three byte strings \<open>Working1inchLimitOrder.generateOrderHash\<close> hashes.\<close>

definition domainEncoding :: "(byte list \<Rightarrow> bytes32) \<Rightarrow> domain \<Rightarrow> error + byte list" where
  "domainEncoding H dm =
     sbind (abi_uint256 (chainId dm)) (\<lambda>cid.
       Inr (abi_bytes32 (H (toUtf8Bytes EIP712DOMAIN_TYPE))
              @ abi_bytes32 (H (toUtf8Bytes (name dm)))
              @ abi_bytes32 (H (toUtf8Bytes (version dm)))
              @ cid @ abi_address (verifyingContract dm)))"

definition structEncoding :: "(byte list \<Rightarrow> bytes32) \<Rightarrow> order \<Rightarrow> error + byte list" where
  "structEncoding H ord =
     sbind (encodeOrderFields ord) (\<lambda>fields.
       Inr (abi_bytes32 (H (toUtf8Bytes ORDER_TYPE_STRING)) @ fields))"

definition typedDataEncoding :: "bytes32 \<Rightarrow> bytes32 \<Rightarrow> byte list" where
  "typedDataEncoding domainSeparator structHash =
     [0x19, 0x01] @ abi_bytes32 domainSeparator @ abi_bytes32 structHash"

definition generateOrderHash ::
  "(byte list \<Rightarrow> bytes32) \<Rightarrow> order \<Rightarrow> domain \<Rightarrow> error + bytes32" where
  "generateOrderHash H orderStructure dm =
     sbind (domainEncoding H dm) (\<lambda>d.
     sbind (structEncoding H orderStructure) (\<lambda>s.
       Inr (H (typedDataEncoding (H d) (H s)))))"

text \<open>Two different byte strings with one hash.\<close>

definition hash_collision :: "(byte list \<Rightarrow> bytes32) \<Rightarrow> byte list \<Rightarrow> byte list \<Rightarrow> bool" where
  "hash_collision H x y \<longleftrightarrow> x \<noteq> y \<and> H x = H y"

section \<open>Maker traits\<close>

text \<open>
  \<open>Date.now()\<close> is a parameter, in milliseconds; \<open>Math.floor(Date.now() / 1000)\<close> is
  the integer quotient.

  \<open>Working1inchLimitOrder.createProperMakerTraits\<close>
\<close>

definition createProperMakerTraits :: "int \<Rightarrow> int" where
  "createProperMakerTraits now_ms =
     (let traits = 0;
          traits = traits OR 1;
          traits = traits OR (push_bit 1 1);
          expiration = now_ms div 1000 + 3600;
          traits = traits OR (push_bit 160 expiration)
      in traits)"

text \<open>\<open>Fixed1inchDemo.createMakerTraits\<close>\<close>

definition createMakerTraits :: int where
  "createMakerTraits =
     (let traits = 0;
          traits = traits OR (push_bit 255 1);
          traits = traits OR (push_bit 254 1)
      in traits)"

section \<open>Effects: calls, traces and thrown errors\<close>

text \<open>
  Each workflow is a straight line of awaited calls to the wallet, the chain and the SDK.
  A run is the list of calls it issued, in order, with the value it returned or the error
  it threw. The outcome of every external call is an input of the model (an environment
  record per workflow); nothing is assumed about the chain.
\<close>

datatype tx_kind = ApprovalTx | DepositTx | FillTx | SwapTx

record order7 =
  o7_maker :: address
  o7_receiver :: address
  o7_makerAsset :: address
  o7_takerAsset :: address
  o7_makingAmount :: int
  o7_takingAmount :: int
  o7_makerTraits :: int

record sdk_traits =
  st_expiration :: "int option"
  st_partialFills :: bool
  st_multipleFills :: bool

datatype event =
    GetSigner
  | GetBalance address
  | BalanceOf address address
  | Allowance address address address
  | Approve address address int
  | Deposit int
  | AwaitTx tx_kind string
  | OrderConstructed order
  | SdkCreateOrder address address address address int int sdk_traits
  | SignTypedData address "domain" order
  | HashOrderCall order
  | RemainingInvalidator address int
  | Simulate order string int
  | EstimateGasFill order string int
  | EstimateGasFill7 order7 string int int
  | FillOrder order string int int
  | FillOrder7 order7 string int int
  | GetAmountsOut int "address list"
  | SwapExactETHForTokens int "address list" address int int
  | SwapExactTokensForTokens int int "address list" address int

type_synonym 'a run = "event list \<times> (error + 'a)"

definition ret :: "'a \<Rightarrow> 'a run" where
  "ret a = ([], Inr a)"

definition throw :: "error \<Rightarrow> 'a run" where
  "throw e = ([], Inl e)"

definition lift :: "error + 'a \<Rightarrow> 'a run" where
  "lift r = ([], r)"

definition call :: "event \<Rightarrow> error + 'a \<Rightarrow> 'a run" where
  "call ev outcome = ([ev], outcome)"

definition bind :: "'a run \<Rightarrow> ('a \<Rightarrow> 'b run) \<Rightarrow> 'b run" where
  "bind m f =
     (case m of
        (tr, Inl e) \<Rightarrow> (tr, Inl e)
      | (tr, Inr a) \<Rightarrow> (case f a of (tr', r) \<Rightarrow> (tr @ tr', r)))"

definition try_catch :: "'a run \<Rightarrow> (error \<Rightarrow> 'a run) \<Rightarrow> 'a run" where
  "try_catch m handler =
     (case m of
        (tr, Inl e) \<Rightarrow> (case handler e of (tr', r) \<Rightarrow> (tr @ tr', r))
      | (tr, Inr a) \<Rightarrow> (tr, Inr a))"

text \<open>A sent transaction: its hash and what \<open>tx.wait()\<close> gives.\<close>

record tx_receipt =
  blockNumber :: int
  gasUsed :: int

record tx =
  hash :: string
  confirmation :: "error + tx_receipt"

record settlement =
  transactionHash :: string
  settledBlock :: int
  settledGas :: int

definition awaitTx :: "tx_kind \<Rightarrow> tx \<Rightarrow> tx_receipt run" where
  "awaitTx k t = call (AwaitTx k (hash t)) (confirmation t)"

text \<open>\<open>amounts[1]\<close> on the array a contract call returned.\<close>

definition result_at :: "int list \<Rightarrow> nat \<Rightarrow> error + int" where
  "result_at amounts i = (if i < length amounts then Inr (amounts ! i) else Inl OutOfResultRange)"

text \<open>
  BigInt division truncates towards zero.
\<close>

definition bigint_div :: "int \<Rightarrow> int \<Rightarrow> int" where
  "bigint_div a b = sgn a * sgn b * (\<bar>a\<bar> div \<bar>b\<bar>)"

section \<open>ManualLimitOrderDemo\<close>

definition MANUAL_DOMAIN :: "domain" where
  "MANUAL_DOMAIN = \<lparr>name = ''1inch Limit Order Protocol'', version = ''4'', chainId = 1,
     verifyingContract = LIMIT_ORDER_PROTOCOL\<rparr>"

text \<open>
  The outcomes \<open>runDemo\<close> and \<open>fillOrder\<close> depend on. The caller's \<open>ethAmount\<close> is a
  JavaScript number; its conversions to base units go through floating point and
  decimal strings, so the two converted amounts are inputs:
  \<open>me_requiredWeth\<close> is \<open>ethers.parseEther(ethAmount.toString())\<close> and
  \<open>me_takingAmount\<close> is \<open>ethers.parseUnits((ethAmount * 2500).toString(), 6)\<close>.
  A signer is identified by its account address, which \<open>signer.getAddress()\<close> returns.
\<close>

record manual_env =
  me_now :: int
  me_getSigner :: "error + address"
  me_wethBalance :: "error + int"
  me_requiredWeth :: "error + int"
  me_takingAmount :: "error + int"
  me_signature :: "error + string"
  me_approveWeth :: "error + tx"
  me_usdcBalance :: "error + int"
  me_approveUsdc :: "error + tx"
  me_fillSigner :: "error + address"
  me_hashOrder :: "error + bytes32"
  me_fillTx :: "error + tx"

record manual_result =
  mr_orderHash :: bytes32
  mr_order :: order
  mr_signature :: string
  mr_execution :: settlement

text \<open>\<open>ManualLimitOrderDemo.fillOrder\<close>\<close>

definition manual_fillOrder :: "manual_env \<Rightarrow> order \<Rightarrow> string \<Rightarrow> settlement run" where
  "manual_fillOrder env ord signature =
     bind (call GetSigner (me_fillSigner env)) (\<lambda>signer.
     let orderStruct = \<lparr>salt = salt ord, maker = maker ord, receiver = receiver ord,
           makerAsset = makerAsset ord, takerAsset = takerAsset ord,
           makingAmount = makingAmount ord, takingAmount = takingAmount ord,
           makerTraits = makerTraits ord\<rparr> in
     bind (call (HashOrderCall orderStruct) (me_hashOrder env)) (\<lambda>contractOrderHash.
     bind (call (FillOrder orderStruct signature (makingAmount ord) (takingAmount ord))
             (me_fillTx env)) (\<lambda>fillTx.
     bind (awaitTx FillTx fillTx) (\<lambda>receipt.
       ret \<lparr>transactionHash = hash fillTx, settledBlock = blockNumber receipt,
            settledGas = gasUsed receipt\<rparr>))))"

text \<open>
  \<open>ManualLimitOrderDemo.runDemo\<close>. The enclosing \<open>try\<close> logs and rethrows, so it is
  left out. \<open>OrderConstructed\<close> marks the point where the order object is built.
\<close>

definition manual_runDemo ::
  "(byte list \<Rightarrow> bytes32) \<Rightarrow> manual_env \<Rightarrow> manual_result run" where
  "manual_runDemo H env =
     bind (call GetSigner (me_getSigner env)) (\<lambda>walletAddress.
     bind (call (BalanceOf WETH_ADDRESS walletAddress) (me_wethBalance env)) (\<lambda>wethBalance.
     bind (lift (me_requiredWeth env)) (\<lambda>requiredWeth.
     if wethBalance < requiredWeth then throw (InsufficientWETH wethBalance requiredWeth)
     else
     bind (lift (me_takingAmount env)) (\<lambda>takingAmt.
     let ord = \<lparr>salt = me_now env, maker = walletAddress, receiver = walletAddress,
           makerAsset = WETH_ADDRESS, takerAsset = USDC_ADDRESS,
           makingAmount = requiredWeth, takingAmount = takingAmt, makerTraits = 0\<rparr> in
     bind (call (OrderConstructed ord) (Inr ())) (\<lambda>_.
     bind (call (SignTypedData walletAddress MANUAL_DOMAIN ord) (me_signature env)) (\<lambda>signature.
     bind (lift (createOrderHash H ord)) (\<lambda>orderHash.
     bind (call (Approve WETH_ADDRESS LIMIT_ORDER_PROTOCOL requiredWeth) (me_approveWeth env))
       (\<lambda>wethApproveTx.
     bind (awaitTx ApprovalTx wethApproveTx) (\<lambda>_.
     bind (call (BalanceOf USDC_ADDRESS walletAddress) (me_usdcBalance env)) (\<lambda>usdcBalance.
     if usdcBalance < takingAmt then throw (InsufficientUSDC usdcBalance takingAmt)
     else
     bind (call (Approve USDC_ADDRESS LIMIT_ORDER_PROTOCOL takingAmt) (me_approveUsdc env))
       (\<lambda>usdcApproveTx.
     bind (awaitTx ApprovalTx usdcApproveTx) (\<lambda>_.
     bind (manual_fillOrder env ord signature) (\<lambda>executionResult.
       ret \<lparr>mr_orderHash = orderHash, mr_order = ord, mr_signature = signature,
            mr_execution = executionResult\<rparr>)))))))))))))"

section \<open>Orders made by the SDK\<close>

text \<open>
  The SDK's \<open>LimitOrder\<close> object, as far as the scripts read it: the fields under
  \<open>.data\<close>, the typed data it hands to the signer and its order hash. The SDK is library
  code, so the object is whatever the construction call returned; reading the typed
  data and the order hash from it are plain field reads here.
\<close>

record sdk_order =
  lo_maker :: address
  lo_receiver :: "address option"
  lo_makerAsset :: address
  lo_takerAsset :: address
  lo_makingAmount :: int
  lo_takingAmount :: int
  lo_makerTraits :: int
  lo_domain :: "domain"
  lo_message :: order
  lo_orderHash :: bytes32


record swap_result =
  sw_settlement :: settlement
  sw_expectedOutput :: int

section \<open>OfficialSDKDemo\<close>

text \<open>
  \<open>oe_requiredWeth\<close> is \<open>ethers.parseEther(ethAmount.toString())\<close>, evaluated in
  \<open>runDemo\<close> and again in \<open>createOrder\<close> on the same argument; \<open>oe_takingAmount\<close> is
  \<open>ethers.parseUnits((ethAmount * 2500).toString(), 6)\<close>; \<open>oe_limitOrder\<close> is the
  outcome of building the \<open>Address\<close> wrappers, the maker traits and the \<open>LimitOrder\<close>.
\<close>

record official_env =
  oe_getSigner :: "error + address"
  oe_wethBalance :: "error + int"
  oe_requiredWeth :: "error + int"
  oe_createSigner :: "error + address"
  oe_takingAmount :: "error + int"
  oe_limitOrder :: "error + sdk_order"
  oe_signature :: "error + string"
  oe_fillSigner :: "error + address"
  oe_approveTx :: "error + tx"
  oe_amountsOut :: "error + int list"
  oe_now :: int
  oe_swapTx :: "error + tx"

record official_order =
  oo_limitOrder :: sdk_order
  oo_signature :: string
  oo_orderHash :: bytes32
  oo_making :: int
  oo_taking :: int

record official_result =
  or_orderCreated :: official_order
  or_orderExecuted :: swap_result

text \<open>\<open>OfficialSDKDemo.createOrder\<close>\<close>

definition official_createOrder :: "official_env \<Rightarrow> official_order run" where
  "official_createOrder env =
     bind (call GetSigner (oe_createSigner env)) (\<lambda>walletAddress.
     bind (lift (oe_requiredWeth env)) (\<lambda>makingAmt.
     bind (lift (oe_takingAmount env)) (\<lambda>takingAmt.
     let makerTraits = \<lparr>st_expiration = None, st_partialFills = True,
           st_multipleFills = True\<rparr> in
     bind (call (SdkCreateOrder walletAddress walletAddress WETH_ADDRESS USDC_ADDRESS
                   makingAmt takingAmt makerTraits) (oe_limitOrder env)) (\<lambda>limitOrder.
     bind (call (SignTypedData walletAddress (lo_domain limitOrder) (lo_message limitOrder))
             (oe_signature env)) (\<lambda>signature.
       ret \<lparr>oo_limitOrder = limitOrder, oo_signature = signature,
            oo_orderHash = lo_orderHash limitOrder, oo_making = makingAmt,
            oo_taking = takingAmt\<rparr>)))))"

text \<open>
  \<open>OfficialSDKDemo.fillOrderManually\<close>. The amount is read back from its formatted
  string (\<open>parseEther(formatEther(makingAmount))\<close>), which is the amount itself.
\<close>

definition official_fillOrderManually :: "official_env \<Rightarrow> official_order \<Rightarrow> swap_result run" where
  "official_fillOrderManually env orderResult =
     bind (call GetSigner (oe_fillSigner env)) (\<lambda>walletAddress.
     let wethAmount = oo_making orderResult in
     bind (call (Approve WETH_ADDRESS UNISWAP_ROUTER wethAmount) (oe_approveTx env)) (\<lambda>approveTx.
     bind (awaitTx ApprovalTx approveTx) (\<lambda>_.
     let path = [WETH_ADDRESS, USDC_ADDRESS] in
     bind (call (GetAmountsOut wethAmount path) (oe_amountsOut env)) (\<lambda>amounts.
     bind (lift (result_at amounts 1)) (\<lambda>expectedOut.
     let minAmountOut = bigint_div (expectedOut * 95) 100;
         deadline = oe_now env div 1000 + 1200 in
     bind (call (SwapExactTokensForTokens wethAmount minAmountOut path walletAddress deadline)
             (oe_swapTx env)) (\<lambda>swapTx.
     bind (awaitTx SwapTx swapTx) (\<lambda>receipt.
       ret \<lparr>sw_settlement = \<lparr>transactionHash = hash swapTx,
              settledBlock = blockNumber receipt, settledGas = gasUsed receipt\<rparr>,
            sw_expectedOutput = expectedOut\<rparr>)))))))"

text \<open>\<open>OfficialSDKDemo.runDemo\<close>\<close>

definition official_runDemo :: "official_env \<Rightarrow> official_result run" where
  "official_runDemo env =
     bind (call GetSigner (oe_getSigner env)) (\<lambda>walletAddress.
     bind (call (BalanceOf WETH_ADDRESS walletAddress) (oe_wethBalance env)) (\<lambda>wethBalance.
     bind (lift (oe_requiredWeth env)) (\<lambda>requiredWeth.
     if wethBalance < requiredWeth then throw (InsufficientWETH wethBalance requiredWeth)
     else
     bind (official_createOrder env) (\<lambda>orderResult.
     bind (official_fillOrderManually env orderResult) (\<lambda>executionResult.
       ret \<lparr>or_orderCreated = orderResult, or_orderExecuted = executionResult\<rparr>)))))"

section \<open>SimpleLimitOrderDemo\<close>






section \<open>LimitOrderDemo.executeLimitOrder\<close>




section \<open>Working1inchLimitOrder\<close>

definition WORKING_DOMAIN :: "domain" where
  "WORKING_DOMAIN = \<lparr>name = ''Limit Order Protocol'', version = ''4'', chainId = 1,
     verifyingContract = LIMIT_ORDER_PROTOCOL\<rparr>"




text \<open>
  What \<open>fillOrderAsTaker\<close> receives: the result of the maker step, whose order data and
  signature may be missing. \<open>te_wethAmountWei\<close> is the amount \<open>executeFallbackDemo\<close>
  parses back from the floating-point number \<open>parseFloat(formatEther(makingAmount))\<close>.
\<close>

record maker_step =
  ms_orderData :: "order option"
  ms_signature :: "string option"

record taker_env =
  te_getSigner :: "error + address"
  te_usdcBalance :: "error + int"
  te_usdcAllowance :: "error + int"
  te_approveTx :: "error + tx"
  te_newAllowance :: "error + int"
  te_remaining :: "error + int"
  te_simulate :: "error + unit"
  te_gasEstimate :: "error + int"
  te_fbSigner :: "error + address"
  te_wethAmountWei :: "error + int"
  te_wethAllowance :: "error + int"
  te_fbApproveTx :: "error + tx"
  te_amountsOut :: "error + int list"
  te_now :: int
  te_swapTx :: "error + tx"

record fallback_result =
  fr_settlement :: settlement
  fr_actualOutput :: int
  fr_method :: string
  fr_note :: string

text \<open>\<open>Working1inchLimitOrder.executeFallbackDemo\<close>\<close>

definition executeFallbackDemo :: "taker_env \<Rightarrow> fallback_result run" where
  "executeFallbackDemo env =
     bind (call GetSigner (te_fbSigner env)) (\<lambda>walletAddress.
     bind (lift (te_wethAmountWei env)) (\<lambda>wethAmountWei.
     bind (call (Allowance WETH_ADDRESS walletAddress UNISWAP_ROUTER) (te_wethAllowance env))
       (\<lambda>allowance.
     bind (if allowance < wethAmountWei
           then bind (call (Approve WETH_ADDRESS UNISWAP_ROUTER wethAmountWei)
                        (te_fbApproveTx env)) (\<lambda>approveTx.
                bind (awaitTx ApprovalTx approveTx) (\<lambda>_. ret ()))
           else ret ()) (\<lambda>_.
     let path = [WETH_ADDRESS, USDC_ADDRESS] in
     bind (call (GetAmountsOut wethAmountWei path) (te_amountsOut env)) (\<lambda>amounts.
     bind (lift (result_at amounts 1)) (\<lambda>expectedOut.
     let minAmountOut = bigint_div (expectedOut * 95) 100;
         deadline = te_now env div 1000 + 1200 in
     bind (call (SwapExactTokensForTokens wethAmountWei minAmountOut path walletAddress deadline)
             (te_swapTx env)) (\<lambda>fillTx.
     bind (awaitTx SwapTx fillTx) (\<lambda>receipt.
       ret \<lparr>fr_settlement = \<lparr>transactionHash = hash fillTx,
              settledBlock = blockNumber receipt, settledGas = gasUsed receipt\<rparr>,
            fr_actualOutput = expectedOut,
            fr_method = ''Fallback Demo (Uniswap V2) - 1inch execution attempted first'',
            fr_note = ''1inch order created successfully, execution fell back to Uniswap for demo reliability''\<rparr>))))))))"

text \<open>
  \<open>Working1inchLimitOrder.fillOrderAsTaker\<close>. The three inner \<open>try\<close> blocks swallow
  what they catch; the outer one rethrows. The amounts of the order data are decimal
  strings of integers, read back with \<open>BigInt\<close>. An empty signature string is falsy,
  like a missing one. The function never calls \<open>fillOrder\<close>: after the gas estimate it
  runs \<open>executeFallbackDemo\<close>.
\<close>

definition fillOrderAsTaker :: "taker_env \<Rightarrow> maker_step \<Rightarrow> fallback_result run" where
  "fillOrderAsTaker env orderResult =
     bind (call GetSigner (te_getSigner env)) (\<lambda>takerAddress.
     case ms_orderData orderResult of
       None \<Rightarrow> throw NoOrderData
     | Some orderData \<Rightarrow>
     let makingAmt = makingAmount orderData;
         takingAmt = takingAmount orderData in
     bind (call (BalanceOf USDC_ADDRESS takerAddress) (te_usdcBalance env)) (\<lambda>usdcBalance.
     if usdcBalance < takingAmt then throw (InsufficientUSDC usdcBalance takingAmt)
     else
     bind (call (Allowance USDC_ADDRESS takerAddress LIMIT_ORDER_PROTOCOL)
             (te_usdcAllowance env)) (\<lambda>usdcAllowance.
     let requiredAmount = takingAmt in
     bind (if usdcAllowance < requiredAmount
           then let approvalAmount = requiredAmount * 2 in
                bind (call (Approve USDC_ADDRESS LIMIT_ORDER_PROTOCOL approvalAmount)
                        (te_approveTx env)) (\<lambda>approveTx.
                bind (awaitTx ApprovalTx approveTx) (\<lambda>_.
                bind (call (Allowance USDC_ADDRESS takerAddress LIMIT_ORDER_PROTOCOL)
                        (te_newAllowance env)) (\<lambda>newAllowance.
                if newAllowance < requiredAmount
                then throw (ApprovalFailed newAllowance requiredAmount)
                else ret ())))
           else ret ()) (\<lambda>_.
     let orderStruct = \<lparr>salt = salt orderData, maker = maker orderData,
           receiver = receiver orderData, makerAsset = makerAsset orderData,
           takerAsset = takerAsset orderData, makingAmount = makingAmt,
           takingAmount = takingAmt, makerTraits = makerTraits orderData\<rparr> in
     case ms_signature orderResult of
       None \<Rightarrow> throw NoSignature
     | Some signature \<Rightarrow>
     if signature = [] then throw NoSignature
     else
     bind (try_catch
             (bind (call (RemainingInvalidator (maker orderData) (drop_bit 8 (salt orderData)))
                      (te_remaining env)) (\<lambda>_. ret ()))
             (\<lambda>validityError. ret ())) (\<lambda>_.
     bind (try_catch
             (call (Simulate orderStruct signature makingAmt) (te_simulate env))
             (\<lambda>simError. ret ())) (\<lambda>_.
     bind (try_catch
             (call (EstimateGasFill orderStruct signature makingAmt) (te_gasEstimate env))
             (\<lambda>gasError. ret 600000)) (\<lambda>gasEstimate.
     bind (executeFallbackDemo env) (\<lambda>fallbackResult.
       ret (fallbackResult
             \<lparr>fr_method := ''1inch Order Created + Uniswap Execution (Demo)'',
              fr_note := ''1inch limit order created successfully, execution demonstrated via Uniswap''\<rparr>)))))))))"

section \<open>Router swaps\<close>

text \<open>\<open>sw_amountIn\<close> is \<open>ethers.parseEther(ethAmount.toString())\<close>.\<close>

record swap_env =
  sw_getSigner :: "error + address"
  sw_amountIn :: "error + int"
  sw_now :: int
  sw_amountsOut :: "error + int list"
  sw_swapTx :: "error + tx"

record eth_swap_result =
  es_settlement :: settlement
  es_expectedOutput :: int
  es_minOutput :: int

text \<open>\<open>WorkingUniswapDemo.swapETHForUSDC\<close>\<close>

definition swapETHForUSDC :: "swap_env \<Rightarrow> eth_swap_result run" where
  "swapETHForUSDC env =
     bind (call GetSigner (sw_getSigner env)) (\<lambda>walletAddress.
     bind (lift (sw_amountIn env)) (\<lambda>amountIn.
     let path = [WETH_ADDRESS, USDC_ADDRESS];
         deadline = sw_now env div 1000 + 1200 in
     bind (call (GetAmountsOut amountIn path) (sw_amountsOut env)) (\<lambda>amounts.
     bind (lift (result_at amounts 1)) (\<lambda>expectedOut.
     let minAmountOut = bigint_div (expectedOut * 95) 100 in
     bind (call (SwapExactETHForTokens minAmountOut path walletAddress deadline amountIn)
             (sw_swapTx env)) (\<lambda>swapTx.
     bind (awaitTx SwapTx swapTx) (\<lambda>receipt.
       ret \<lparr>es_settlement = \<lparr>transactionHash = hash swapTx,
              settledBlock = blockNumber receipt, settledGas = gasUsed receipt\<rparr>,
            es_expectedOutput = expectedOut, es_minOutput = minAmountOut\<rparr>))))))"

text \<open>\<open>SimpleUniswapDemo.executeSwap\<close>\<close>

definition executeSwap :: "swap_env \<Rightarrow> swap_result run" where
  "executeSwap env =
     bind (call GetSigner (sw_getSigner env)) (\<lambda>walletAddress.
     bind (lift (sw_amountIn env)) (\<lambda>amountIn.
     let path = [WETH_ADDRESS, USDC_ADDRESS];
         deadline = sw_now env div 1000 + 1200 in
     bind (call (GetAmountsOut amountIn path) (sw_amountsOut env)) (\<lambda>amounts.
     bind (lift (result_at amounts 1)) (\<lambda>quoted.
     let minAmountOut = bigint_div (quoted * 95) 100 in
     bind (call (SwapExactETHForTokens minAmountOut path walletAddress deadline amountIn)
             (sw_swapTx env)) (\<lambda>swapTx.
     bind (awaitTx SwapTx swapTx) (\<lambda>receipt.
       ret \<lparr>sw_settlement = \<lparr>transactionHash = hash swapTx,
              settledBlock = blockNumber receipt, settledGas = gasUsed receipt\<rparr>,
            sw_expectedOutput = quoted\<rparr>))))))"

section \<open>RobustSwapDemo component\<close>

text \<open>
  The component's React state after \<open>runDemo\<close>. The two swap helpers it calls are
  represented by their outcomes: the value returned, or the \<open>message\<close> of the error
  thrown. The balance test compares floating-point numbers, so its verdict
  (\<open>ri_insufficient\<close>) and the number printed in its message (\<open>ri_needed\<close>) are inputs.
  \<open>st_reloads\<close> counts the scheduled calls of \<open>loadBalance\<close>.
\<close>

record uniswap_demo_result =
  ud_quote :: string
  ud_execution :: settlement
  ud_expectedOutput :: string

record ui_result =
  ui_method :: string
  ui_quote :: "string option"
  ui_execution :: settlement
  ui_expectedOutput :: "string option"

record ui_state =
  st_result :: "ui_result option"
  st_error :: "string option"
  st_isLoading :: bool
  st_reloads :: nat

record robust_inputs =
  ri_connected :: bool
  ri_balanceEth :: string
  ri_needed :: string
  ri_insufficient :: bool
  ri_uniswap :: "string + uniswap_demo_result"
  ri_direct :: "string + settlement"

definition robust_runDemo :: "robust_inputs \<Rightarrow> ui_state \<Rightarrow> ui_state" where
  "robust_runDemo inp st =
     (if \<not> ri_connected inp then st\<lparr>st_error := Some ''Please connect your wallet first''\<rparr>
      else if ri_insufficient inp
      then st\<lparr>st_error := Some (''Insufficient ETH balance. You have '' @ ri_balanceEth inp
                  @ '' ETH but need '' @ ri_needed inp @ '' ETH (includes gas)'')\<rparr>
      else
        let st1 = st\<lparr>st_isLoading := True, st_error := None, st_result := None\<rparr>;
            st2 =
              (case ri_uniswap inp of
                 Inr demoResult \<Rightarrow>
                   st1\<lparr>st_result := Some \<lparr>ui_method = ''Uniswap V2'',
                          ui_quote = Some (ud_quote demoResult),
                          ui_execution = ud_execution demoResult,
                          ui_expectedOutput = Some (ud_expectedOutput demoResult)\<rparr>,
                       st_reloads := st_reloads st1 + 1\<rparr>
               | Inl uniswapError \<Rightarrow>
                   (case ri_direct inp of
                      Inr directResult \<Rightarrow>
                        st1\<lparr>st_result := Some \<lparr>ui_method = ''1inch Direct'',
                               ui_quote = None, ui_execution = directResult,
                               ui_expectedOutput = None\<rparr>,
                            st_reloads := st_reloads st1 + 1\<rparr>
                    | Inl directError \<Rightarrow>
                        st1\<lparr>st_error := Some (''Swap failed. Uniswap: '' @ uniswapError
                               @ ''. 1inch: '' @ directError)\<rparr>))
        in st2\<lparr>st_isLoading := False\<rparr>)"

text \<open>Every string the state holds, and whether a message appears in one of them.\<close>

definition shown_strings :: "ui_state \<Rightarrow> string list" where
  "shown_strings st =
     (case st_error st of None \<Rightarrow> [] | Some e \<Rightarrow> [e])
     @ (case st_result st of
          None \<Rightarrow> []
        | Some r \<Rightarrow>
            [ui_method r, transactionHash (ui_execution r)]
            @ (case ui_quote r of None \<Rightarrow> [] | Some q \<Rightarrow> [q])
            @ (case ui_expectedOutput r of None \<Rightarrow> [] | Some q \<Rightarrow> [q]))"

definition reports :: "string \<Rightarrow> ui_state \<Rightarrow> bool" where
  "reports msg st \<longleftrightarrow> (\<exists>s \<in> set (shown_strings st). sublist msg s)"

section \<open>Balance helpers\<close>

text \<open>
  \<open>ethers.formatUnits\<close> is a parameter (\<open>formatEther\<close> is \<open>formatUnits\<close> with 18
  decimals).
\<close>

record balance_env =
  bq_eth :: "error + int"
  bq_weth :: "error + int"
  bq_usdc :: "error + int"

record balances3 =
  b_eth :: string
  b_weth :: string
  b_usdc :: string

record balances2 =
  b2_eth :: string
  b2_usdc :: string

text \<open>\<open>checkTokenBalances\<close> of manualLimitOrderDemo.js\<close>

definition checkTokenBalances ::
  "(nat \<Rightarrow> int \<Rightarrow> string) \<Rightarrow> balance_env \<Rightarrow> address \<Rightarrow> balances3 run" where
  "checkTokenBalances formatUnits env walletAddress =
     try_catch
       (bind (call (GetBalance walletAddress) (bq_eth env)) (\<lambda>ethBalance.
        bind (call (BalanceOf WETH_ADDRESS walletAddress) (bq_weth env)) (\<lambda>wethBalance.
        bind (call (BalanceOf USDC_ADDRESS walletAddress) (bq_usdc env)) (\<lambda>usdcBalance.
          ret \<lparr>b_eth = formatUnits 18 ethBalance, b_weth = formatUnits 18 wethBalance,
               b_usdc = formatUnits 6 usdcBalance\<rparr>))))
       (\<lambda>error. ret \<lparr>b_eth = ''0'', b_weth = ''0'', b_usdc = ''0''\<rparr>)"

text \<open>\<open>checkDemoBalances\<close> of workingUniswapDemo.js\<close>

definition checkDemoBalances ::
  "(nat \<Rightarrow> int \<Rightarrow> string) \<Rightarrow> balance_env \<Rightarrow> address \<Rightarrow> balances3 run" where
  "checkDemoBalances formatUnits env walletAddress =
     try_catch
       (bind (call (GetBalance walletAddress) (bq_eth env)) (\<lambda>ethBalance.
        bind (call (BalanceOf WETH_ADDRESS walletAddress) (bq_weth env)) (\<lambda>wethBalance.
        bind (call (BalanceOf USDC_ADDRESS walletAddress) (bq_usdc env)) (\<lambda>usdcBalance.
          ret \<lparr>b_eth = formatUnits 18 ethBalance, b_weth = formatUnits 18 wethBalance,
               b_usdc = formatUnits 6 usdcBalance\<rparr>))))
       (\<lambda>error. ret \<lparr>b_eth = ''0'', b_weth = ''0'', b_usdc = ''0''\<rparr>)"

text \<open>\<open>checkBalances\<close> of workingLimitOrderDemo.js\<close>

definition checkBalances ::
  "(nat \<Rightarrow> int \<Rightarrow> string) \<Rightarrow> balance_env \<Rightarrow> address \<Rightarrow> balances2 run" where
  "checkBalances formatUnits env walletAddress =
     try_catch
       (bind (call (GetBalance walletAddress) (bq_eth env)) (\<lambda>ethBalance.
        bind (call (BalanceOf USDC_ADDRESS walletAddress) (bq_usdc env)) (\<lambda>usdcBalance.
          ret \<lparr>b2_eth = formatUnits 18 ethBalance, b2_usdc = formatUnits 6 usdcBalance\<rparr>)))
       (\<lambda>error. ret \<lparr>b2_eth = ''0'', b2_usdc = ''0''\<rparr>)"

section \<open>Notions used to state the properties\<close>

text \<open>A call put in front of the rest of a run.\<close>

definition prepend :: "event \<Rightarrow> 'a run \<Rightarrow> 'a run" where
  "prepend ev m = (ev # fst m, snd m)"

text \<open>The value of a big-endian byte string.\<close>

definition be_int :: "byte list \<Rightarrow> int" where
  "be_int bs = foldl (\<lambda>a b. a * 256 + uint b) 0 bs"











text \<open>
  A stand-in for the hash in the worked examples: the length of the byte string plus
  its big-endian value modulo 65521.
\<close>

definition toy_hash :: "byte list \<Rightarrow> bytes32" where
  "toy_hash bs = word_of_int (int (length bs) + be_int bs mod 65521)"

section \<open>Worked examples\<close>

text \<open>
  Concrete environments: a wallet that swaps one unit of WETH (\<open>10^18\<close> base units) for
  2500 units of USDC (\<open>2500 * 10^6\<close> base units), with every call succeeding.
\<close>

definition example_wallet :: address where
  "example_wallet = 0xf39Fd6e51aad88F6F4ce6aB8827279cffFb92266"

definition ok_tx :: "string \<Rightarrow> tx" where
  "ok_tx h = \<lparr>hash = h, confirmation = Inr \<lparr>blockNumber = 19000000, gasUsed = 150000\<rparr>\<rparr>"

definition example_order :: order where
  "example_order =
     \<lparr>salt = 1700000000000, maker = example_wallet, receiver = example_wallet,
      makerAsset = WETH_ADDRESS, takerAsset = USDC_ADDRESS, makingAmount = 10 ^ 18,
      takingAmount = 2500000000, makerTraits = 0\<rparr>"

definition example_manual_env :: manual_env where
  "example_manual_env =
     \<lparr>me_now = 1700000000000, me_getSigner = Inr example_wallet,
      me_wethBalance = Inr (10 ^ 18), me_requiredWeth = Inr (10 ^ 18),
      me_takingAmount = Inr 2500000000, me_signature = Inr ''0x5f1c'',
      me_approveWeth = Inr (ok_tx ''0xa1''), me_usdcBalance = Inr 2500000000,
      me_approveUsdc = Inr (ok_tx ''0xa2''), me_fillSigner = Inr example_wallet,
      me_hashOrder = Inr 7, me_fillTx = Inr (ok_tx ''0xf1'')\<rparr>"

definition example_sdk_order :: sdk_order where
  "example_sdk_order =
     \<lparr>lo_maker = example_wallet, lo_receiver = Some example_wallet,
      lo_makerAsset = WETH_ADDRESS, lo_takerAsset = USDC_ADDRESS,
      lo_makingAmount = 10 ^ 18, lo_takingAmount = 2500000000, lo_makerTraits = 0,
      lo_domain = \<lparr>name = ''1inch Aggregation Router'', version = ''6'', chainId = 1,
        verifyingContract = LIMIT_ORDER_PROTOCOL\<rparr>,
      lo_message = example_order, lo_orderHash = 7\<rparr>"

definition example_official_env :: official_env where
  "example_official_env =
     \<lparr>oe_getSigner = Inr example_wallet, oe_wethBalance = Inr (10 ^ 18),
      oe_requiredWeth = Inr (10 ^ 18), oe_createSigner = Inr example_wallet,
      oe_takingAmount = Inr 2500000000, oe_limitOrder = Inr example_sdk_order,
      oe_signature = Inr ''0x5f1c'', oe_fillSigner = Inr example_wallet,
      oe_approveTx = Inr (ok_tx ''0xa1''), oe_amountsOut = Inr [10 ^ 18, 2491000000],
      oe_now = 1700000000000, oe_swapTx = Inr (ok_tx ''0xf1'')\<rparr>"




definition example_swap_env :: swap_env where
  "example_swap_env =
     \<lparr>sw_getSigner = Inr example_wallet, sw_amountIn = Inr (10 ^ 18),
      sw_now = 1700000000000, sw_amountsOut = Inr [10 ^ 18, 2491000001],
      sw_swapTx = Inr (ok_tx ''0xf1'')\<rparr>"




text \<open>The primary swap reverts and the fallback swap goes through.\<close>

definition reverting_inputs :: robust_inputs where
  "reverting_inputs =
     \<lparr>ri_connected = True, ri_balanceEth = ''1.0'', ri_needed = ''0.002'',
      ri_insufficient = False, ri_uniswap = Inl ''execution reverted'',
      ri_direct = Inr \<lparr>transactionHash = ''0xd1'', settledBlock = 19000000,
        settledGas = 150000\<rparr>\<rparr>"

definition idle_state :: ui_state where
  "idle_state = \<lparr>st_result = None, st_error = None, st_isLoading = False, st_reloads = 0\<rparr>"


section \<open>Properties of the maker traits\<close>

text \<open>
  C5. The traits builders follow the bit layout they document.
  \<open>createProperMakerTraits\<close> returns, for the expiry
  \<open>e = floor(now / 1000) + 3600\<close>, the integer whose bit 0 and bit 1 are set, whose
  bits 2 to 159 are clear and whose bits from 160 upwards are the bits of \<open>e\<close>;
  \<open>createMakerTraits\<close> returns the integer with exactly the bits 254 and 255 set.
\<close>

theorem maker_traits_bit_layout:
  "(bit (createProperMakerTraits now_ms) n =
      (n = 0 \<or> n = 1 \<or> (160 \<le> n \<and> bit (now_ms div 1000 + 3600) (n - 160))))
   \<and> drop_bit 160 (createProperMakerTraits now_ms) = now_ms div 1000 + 3600
   \<and> take_bit 160 (createProperMakerTraits now_ms) = 3
   \<and> (bit createMakerTraits n = (n = 254 \<or> n = 255))"
proof -
  have proper_bits: "bit (createProperMakerTraits now_ms) n =
     (n = 0 \<or> n = 1 \<or> (160 \<le> n \<and> bit (now_ms div 1000 + 3600) (n - 160)))"
    unfolding createProperMakerTraits_def Let_def bit_or_iff bit_push_bit_iff bit_1_iff
    by auto
  have expiry: "drop_bit 160 (createProperMakerTraits now_ms) = now_ms div 1000 + 3600"
    unfolding createProperMakerTraits_def Let_def
    by (simp add: drop_bit_push_bit)
  have flags: "take_bit 160 (createProperMakerTraits now_ms) = 3"
    unfolding createProperMakerTraits_def Let_def
    by (simp add: take_bit_push_bit)
  have fixed_bits: "bit createMakerTraits n = (n = 254 \<or> n = 255)"
    unfolding createMakerTraits_def Let_def bit_or_iff bit_push_bit_iff bit_1_iff
    by auto
  from proper_bits expiry flags fixed_bits show ?thesis by blast
qed

section \<open>Laws of the effect combinators\<close>

lemma prepend_simps: "fst (prepend ev m) = ev # fst m" "snd (prepend ev m) = snd m"
  by (simp_all add: prepend_def)

lemma bind_call:
  "bind (call ev r) f = (case r of Inl e \<Rightarrow> ([ev], Inl e) | Inr a \<Rightarrow> prepend ev (f a))"
  by (simp add: bind_def call_def prepend_def split: sum.splits prod.splits)

lemma bind_lift: "bind (lift r) f = (case r of Inl e \<Rightarrow> ([], Inl e) | Inr a \<Rightarrow> f a)"
  by (simp add: bind_def lift_def split: sum.splits prod.splits)

lemma bind_await:
  "bind (awaitTx k t) f =
     (case confirmation t of
        Inl e \<Rightarrow> ([AwaitTx k (hash t)], Inl e)
      | Inr a \<Rightarrow> prepend (AwaitTx k (hash t)) (f a))"
  by (simp add: awaitTx_def bind_call)

lemma bind_ret: "bind (ret a) f = f a"
  by (simp add: bind_def ret_def split: sum.splits prod.splits)

lemma bind_throw: "bind (throw e) f = throw e"
  by (simp add: bind_def throw_def split: sum.splits prod.splits)




lemma run_proj:
  "fst (ret a) = []" "snd (ret a) = Inr a" "fst (throw e) = []" "snd (throw e) = Inl e"
  by (simp_all add: ret_def throw_def)

lemmas run_simps = bind_call bind_lift bind_await bind_ret bind_throw run_proj prepend_simps



section \<open>Insufficient balance\<close>

text \<open>
  C3. When the maker's WETH balance is strictly below the amount offered,
  \<open>ManualLimitOrderDemo.runDemo\<close> and \<open>OfficialSDKDemo.runDemo\<close> throw the
  insufficient-balance error, carrying the balance and the amount needed, and the run
  consists of reading the signer and the balance only: no order is constructed, nothing
  is signed, and no approval or settlement transaction is sent.
\<close>

theorem insufficient_balance_aborts:
  "(me_getSigner env = Inr w \<and> me_wethBalance env = Inr b \<and> me_requiredWeth env = Inr r
      \<and> b < r \<longrightarrow>
    manual_runDemo H env = ([GetSigner, BalanceOf WETH_ADDRESS w], Inl (InsufficientWETH b r)))
   \<and> (oe_getSigner oenv = Inr w' \<and> oe_wethBalance oenv = Inr b' \<and> oe_requiredWeth oenv = Inr r'
      \<and> b' < r' \<longrightarrow>
    official_runDemo oenv = ([GetSigner, BalanceOf WETH_ADDRESS w'], Inl (InsufficientWETH b' r')))"
proof -
  have manual: "manual_runDemo H env = ([GetSigner, BalanceOf WETH_ADDRESS w], Inl (InsufficientWETH b r))"
    if "me_getSigner env = Inr w" "me_wethBalance env = Inr b" "me_requiredWeth env = Inr r" "b < r"
    using that unfolding manual_runDemo_def by (simp add: run_simps prepend_def throw_def)
  have official: "official_runDemo oenv = ([GetSigner, BalanceOf WETH_ADDRESS w'], Inl (InsufficientWETH b' r'))"
    if "oe_getSigner oenv = Inr w'" "oe_wethBalance oenv = Inr b'" "oe_requiredWeth oenv = Inr r'" "b' < r'"
    using that unfolding official_runDemo_def by (simp add: run_simps prepend_def throw_def)
  from manual official show ?thesis by blast
qed

theorem insufficient_balance_aborts_witness:
  "manual_runDemo toy_hash (example_manual_env\<lparr>me_wethBalance := Inr (10 ^ 18 - 1)\<rparr>)
     = ([GetSigner, BalanceOf WETH_ADDRESS example_wallet],
        Inl (InsufficientWETH (10 ^ 18 - 1) (10 ^ 18)))
   \<and> official_runDemo (example_official_env\<lparr>oe_wethBalance := Inr (10 ^ 18 - 1)\<rparr>)
     = ([GetSigner, BalanceOf WETH_ADDRESS example_wallet],
        Inl (InsufficientWETH (10 ^ 18 - 1) (10 ^ 18)))"
  using insufficient_balance_aborts
    [of "example_manual_env\<lparr>me_wethBalance := Inr (10 ^ 18 - 1)\<rparr>" example_wallet
        "10 ^ 18 - 1" "10 ^ 18" toy_hash
        "example_official_env\<lparr>oe_wethBalance := Inr (10 ^ 18 - 1)\<rparr>" example_wallet
        "10 ^ 18 - 1" "10 ^ 18"]
  by (simp add: example_manual_env_def example_official_env_def)

section \<open>Order of the stages\<close>











section \<open>What an order is built from\<close>







section \<open>Reporting after a fallback\<close>

lemma try_catch_call_ret:
  "try_catch (call ev r) (\<lambda>e. ret x) = call ev (Inr (case r of Inl e \<Rightarrow> x | Inr a \<Rightarrow> a))"
  by (simp add: try_catch_def call_def ret_def split: sum.splits)

lemma try_catch_call_unit:
  "try_catch (bind (call ev r) (\<lambda>_. ret ())) (\<lambda>e. ret ()) = call ev (Inr ())"
  by (simp add: try_catch_def bind_def call_def ret_def split: sum.splits)

lemma try_catch_proj:
  "snd (try_catch m (\<lambda>e. ret x)) = Inr (case snd m of Inl e \<Rightarrow> x | Inr a \<Rightarrow> a)"
  by (cases m) (simp add: try_catch_def ret_def split: sum.splits)

text \<open>
  C1, as the claim states it, fails: when the primary swap of \<open>RobustSwapDemo\<close> throws
  \<open>execution reverted\<close> and the fallback succeeds, the state shown holds the fallback's
  result only. The error is cleared, the revert reason appears in no string of the
  state, and a run with another primary error ends in the very same state.
\<close>

theorem fallback_drops_original_error_counterexample:
  "robust_runDemo reverting_inputs idle_state =
     \<lparr>st_result = Some \<lparr>ui_method = ''1inch Direct'', ui_quote = None,
        ui_execution = \<lparr>transactionHash = ''0xd1'', settledBlock = 19000000,
          settledGas = 150000\<rparr>,
        ui_expectedOutput = None\<rparr>,
      st_error = None, st_isLoading = False, st_reloads = 1\<rparr>
   \<and> \<not> reports ''execution reverted'' (robust_runDemo reverting_inputs idle_state)
   \<and> robust_runDemo (reverting_inputs\<lparr>ri_uniswap := Inl ''insufficient funds''\<rparr>) idle_state
       = robust_runDemo reverting_inputs idle_state"
  by (simp add: robust_runDemo_def reverting_inputs_def idle_state_def reports_def
      shown_strings_def sublist_Cons_right)

text \<open>
  C1, amended. When the primary swap of \<open>RobustSwapDemo.runDemo\<close> throws and the
  fallback succeeds, the state shown is the fallback's result tagged \<open>1inch Direct\<close>
  with the error cleared; the original error is not part of it. When both throw, the
  error shown holds both messages and there is no result.
  \<open>Working1inchLimitOrder.fillOrderAsTaker\<close> does not react to a failed fill at all:
  whether the validity query, the simulation and the gas estimate succeed or throw
  changes neither its calls nor what it returns or throws.
\<close>

theorem fallback_reporting:
  "(ri_connected inp \<and> \<not> ri_insufficient inp \<and> ri_uniswap inp = Inl e1
      \<and> ri_direct inp = Inr r \<longrightarrow>
      robust_runDemo inp st =
        st\<lparr>st_isLoading := False, st_error := None,
           st_result := Some \<lparr>ui_method = ''1inch Direct'', ui_quote = None,
             ui_execution = r, ui_expectedOutput = None\<rparr>,
           st_reloads := st_reloads st + 1\<rparr>)
   \<and> (ri_connected inp \<and> \<not> ri_insufficient inp \<and> ri_uniswap inp = Inl e1
      \<and> ri_direct inp = Inl e2 \<longrightarrow>
      robust_runDemo inp st =
        st\<lparr>st_isLoading := False, st_result := None,
           st_error := Some (''Swap failed. Uniswap: '' @ e1 @ ''. 1inch: '' @ e2)\<rparr>)
   \<and> fillOrderAsTaker (env\<lparr>te_remaining := x, te_simulate := y, te_gasEstimate := z\<rparr>) mo
       = fillOrderAsTaker env mo"
proof -
  have fallback_ok: "robust_runDemo inp st =
        st\<lparr>st_isLoading := False, st_error := None,
           st_result := Some \<lparr>ui_method = ''1inch Direct'', ui_quote = None,
             ui_execution = r, ui_expectedOutput = None\<rparr>,
           st_reloads := st_reloads st + 1\<rparr>"
    if "ri_connected inp" "\<not> ri_insufficient inp" "ri_uniswap inp = Inl e1"
      "ri_direct inp = Inr r"
    using that by (simp add: robust_runDemo_def)
  have both_fail: "robust_runDemo inp st =
        st\<lparr>st_isLoading := False, st_result := None,
           st_error := Some (''Swap failed. Uniswap: '' @ e1 @ ''. 1inch: '' @ e2)\<rparr>"
    if "ri_connected inp" "\<not> ri_insufficient inp" "ri_uniswap inp = Inl e1"
      "ri_direct inp = Inl e2"
    using that by (simp add: robust_runDemo_def)
  have swallowed:
    "fillOrderAsTaker (env\<lparr>te_remaining := x, te_simulate := y, te_gasEstimate := z\<rparr>) mo
       = fillOrderAsTaker env mo"
    unfolding fillOrderAsTaker_def executeFallbackDemo_def try_catch_call_ret
      try_catch_call_unit Let_def
    by (simp add: bind_call cong: if_cong option.case_cong)
  from fallback_ok both_fail swallowed show ?thesis by blast
qed

theorem fallback_reporting_witness:
  "robust_runDemo reverting_inputs idle_state =
     idle_state\<lparr>st_isLoading := False, st_error := None,
        st_result := Some \<lparr>ui_method = ''1inch Direct'', ui_quote = None,
          ui_execution = \<lparr>transactionHash = ''0xd1'', settledBlock = 19000000,
            settledGas = 150000\<rparr>,
          ui_expectedOutput = None\<rparr>,
        st_reloads := st_reloads idle_state + 1\<rparr>
   \<and> robust_runDemo (reverting_inputs\<lparr>ri_direct := Inl ''nonce too low''\<rparr>) idle_state =
     idle_state\<lparr>st_isLoading := False, st_result := None,
        st_error := Some (''Swap failed. Uniswap: '' @ ''execution reverted''
                          @ ''. 1inch: '' @ ''nonce too low'')\<rparr>"
proof -
  have ok: "ri_connected reverting_inputs \<and> \<not> ri_insufficient reverting_inputs
      \<and> ri_uniswap reverting_inputs = Inl ''execution reverted''
      \<and> ri_direct reverting_inputs = Inr \<lparr>transactionHash = ''0xd1'',
           settledBlock = 19000000, settledGas = 150000\<rparr>"
    by (simp add: reverting_inputs_def)
  have bad: "ri_connected (reverting_inputs\<lparr>ri_direct := Inl ''nonce too low''\<rparr>)
      \<and> \<not> ri_insufficient (reverting_inputs\<lparr>ri_direct := Inl ''nonce too low''\<rparr>)
      \<and> ri_uniswap (reverting_inputs\<lparr>ri_direct := Inl ''nonce too low''\<rparr>)
          = Inl ''execution reverted''
      \<and> ri_direct (reverting_inputs\<lparr>ri_direct := Inl ''nonce too low''\<rparr>)
          = Inl ''nonce too low''"
    by (simp add: reverting_inputs_def)
  from fallback_reporting [of reverting_inputs "''execution reverted''" _ idle_state]
    ok have first: "robust_runDemo reverting_inputs idle_state =
     idle_state\<lparr>st_isLoading := False, st_error := None,
        st_result := Some \<lparr>ui_method = ''1inch Direct'', ui_quote = None,
          ui_execution = \<lparr>transactionHash = ''0xd1'', settledBlock = 19000000,
            settledGas = 150000\<rparr>,
          ui_expectedOutput = None\<rparr>,
        st_reloads := st_reloads idle_state + 1\<rparr>"
    by blast
  from fallback_reporting
    [of "reverting_inputs\<lparr>ri_direct := Inl ''nonce too low''\<rparr>" "''execution reverted''"
        _ idle_state "''nonce too low''"]
    bad have second:
    "robust_runDemo (reverting_inputs\<lparr>ri_direct := Inl ''nonce too low''\<rparr>) idle_state =
     idle_state\<lparr>st_isLoading := False, st_result := None,
        st_error := Some (''Swap failed. Uniswap: '' @ ''execution reverted''
                          @ ''. 1inch: '' @ ''nonce too low'')\<rparr>"
    by blast
  from first second show ?thesis by blast
qed

section \<open>The order hashes\<close>

lemma length_be_bytes: "length (be_bytes n v) = n"
  by (induction n arbitrary: v) auto

lemma be_int_snoc: "be_int (bs @ [b]) = be_int bs * 256 + uint b"
  by (simp add: be_int_def)

lemma be_int_be_bytes: "0 \<le> v \<Longrightarrow> v < 256 ^ n \<Longrightarrow> be_int (be_bytes n v) = v"
proof (induction n arbitrary: v)
  case 0
  then show ?case by (simp add: be_int_def)
next
  case (Suc n)
  have nonneg: "0 \<le> v div 256" using Suc.prems by simp
  have bound: "v div 256 < 256 ^ n"
    using Suc.prems by (simp add: div_less_iff_less_mult mult.commute)
  have low: "uint (word_of_int v :: byte) = v mod 256"
    by (simp add: uint_word_of_int take_bit_eq_mod)
  have "be_int (be_bytes (Suc n) v) = be_int (be_bytes n (v div 256)) * 256 + v mod 256"
    by (simp add: be_int_snoc low)
  also have "\<dots> = (v div 256) * 256 + v mod 256"
    using Suc.IH [OF nonneg bound] by simp
  finally show ?case by simp
qed

lemma be_bytes_32_inj:
  assumes "be_bytes 32 a = be_bytes 32 b" "0 \<le> a" "a < 2 ^ 256" "0 \<le> b" "b < 2 ^ 256"
  shows "a = b"
proof -
  have "a = be_int (be_bytes 32 a)"
    by (rule be_int_be_bytes [symmetric]) (use assms(2,3) in simp_all)
  also have "\<dots> = be_int (be_bytes 32 b)"
    by (rule arg_cong [OF assms(1)])
  also have "\<dots> = b"
    by (rule be_int_be_bytes) (use assms(4,5) in simp_all)
  finally show ?thesis .
qed

lemma abi_bytes32_inj: "abi_bytes32 a = abi_bytes32 b \<Longrightarrow> a = b"
proof -
  assume eq: "abi_bytes32 a = abi_bytes32 b"
  have "uint a < 2 ^ 256" "uint b < 2 ^ 256"
    using uint_bounded [of a] uint_bounded [of b] by simp_all
  with eq have "uint a = uint b"
    unfolding abi_bytes32_def by (intro be_bytes_32_inj) simp_all
  then show ?thesis by (rule word_uint_eqI)
qed

lemma length_abi:
  "length (abi_bytes32 h) = 32" "length (abi_address a) = 32"
  by (simp_all add: abi_bytes32_def abi_address_def length_be_bytes)

lemma encodeOrderFields_Inr:
  assumes "encodeOrderFields ord = Inr e"
  shows "0 \<le> salt ord \<and> salt ord < 2 ^ 256 \<and> length e = 256
         \<and> take 32 e = be_bytes 32 (salt ord)"
  using assms
  by (auto simp add: encodeOrderFields_def sbind_def abi_uint256_def length_be_bytes length_abi
      split: sum.splits if_splits)

lemma encodings_differ:
  assumes "salt o1 \<noteq> salt o2" "encodeOrderFields o1 = Inr e1" "encodeOrderFields o2 = Inr e2"
  shows "e1 \<noteq> e2"
proof
  assume "e1 = e2"
  then have "take 32 e1 = take 32 e2" by simp
  then have "be_bytes 32 (salt o1) = be_bytes 32 (salt o2)"
    using encodeOrderFields_Inr [OF assms(2)] encodeOrderFields_Inr [OF assms(3)] by simp
  then have "salt o1 = salt o2"
    using encodeOrderFields_Inr [OF assms(2)] encodeOrderFields_Inr [OF assms(3)]
    by (intro be_bytes_32_inj) simp_all
  with assms(1) show False by simp
qed

lemma typedDataEncoding_inj:
  "typedDataEncoding ds a = typedDataEncoding ds b \<Longrightarrow> a = b"
  by (simp add: typedDataEncoding_def abi_bytes32_inj)

lemma length_typedDataEncoding: "length (typedDataEncoding ds sh) = 66"
  by (simp add: typedDataEncoding_def length_abi)

lemma example_order_encodes: "\<not> isl (encodeOrderFields example_order)"
  by (simp add: encodeOrderFields_def abi_uint256_def sbind_def example_order_def)

lemma example_order_salt_encodes:
  "\<not> isl (encodeOrderFields (example_order\<lparr>salt := 1700000000001\<rparr>))"
  by (simp add: encodeOrderFields_def abi_uint256_def sbind_def example_order_def)

lemma working_domain_encodes: "\<not> isl (domainEncoding toy_hash WORKING_DOMAIN)"
  by (simp add: domainEncoding_def abi_uint256_def sbind_def WORKING_DOMAIN_def)

text \<open>
  C2. \<open>createOrderHash\<close> hashes the 256 bytes of the eight encoded fields, while
  \<open>generateOrderHash\<close> hashes the 66 bytes made of the prefix \<open>0x1901\<close>, the domain
  separator and the struct hash. For an order and a domain that encode, the two
  results are equal exactly when the hash collides on these two byte strings of
  different length: the functions are not two implementations of one hash.
\<close>

theorem local_hash_is_not_typed_data_hash:
  "encodeOrderFields ord = Inr enc \<and> domainEncoding H d = Inr de \<longrightarrow>
   length enc = 256
   \<and> length (typedDataEncoding (H de)
        (H (abi_bytes32 (H (toUtf8Bytes ORDER_TYPE_STRING)) @ enc))) = 66
   \<and> ((createOrderHash H ord = generateOrderHash H ord d) =
        hash_collision H enc
          (typedDataEncoding (H de)
             (H (abi_bytes32 (H (toUtf8Bytes ORDER_TYPE_STRING)) @ enc))))"
proof (intro impI, elim conjE)
  assume e: "encodeOrderFields ord = Inr enc" and de: "domainEncoding H d = Inr de"
  let ?td = "typedDataEncoding (H de)
     (H (abi_bytes32 (H (toUtf8Bytes ORDER_TYPE_STRING)) @ enc))"
  have l1: "length enc = 256" using encodeOrderFields_Inr [OF e] by simp
  have l2: "length ?td = 66" by (rule length_typedDataEncoding)
  have ne: "enc \<noteq> ?td" using l1 l2 by auto
  have "(createOrderHash H ord = generateOrderHash H ord d) = hash_collision H enc ?td"
    using ne
    by (simp add: createOrderHash_def generateOrderHash_def structEncoding_def sbind_def e de
        hash_collision_def)
  with l1 l2 show "length enc = 256 \<and> length ?td = 66
    \<and> ((createOrderHash H ord = generateOrderHash H ord d) = hash_collision H enc ?td)"
    by blast
qed

theorem local_hash_is_not_typed_data_hash_witness:
  "length (projr (encodeOrderFields example_order)) = 256
   \<and> ((createOrderHash toy_hash example_order
        = generateOrderHash toy_hash example_order WORKING_DOMAIN) =
       hash_collision toy_hash (projr (encodeOrderFields example_order))
         (typedDataEncoding (toy_hash (projr (domainEncoding toy_hash WORKING_DOMAIN)))
            (toy_hash (abi_bytes32 (toy_hash (toUtf8Bytes ORDER_TYPE_STRING))
                        @ projr (encodeOrderFields example_order)))))"
proof -
  have e: "encodeOrderFields example_order = Inr (projr (encodeOrderFields example_order))"
    by (rule sum.collapse(2) [OF example_order_encodes, symmetric])
  have d: "domainEncoding toy_hash WORKING_DOMAIN
             = Inr (projr (domainEncoding toy_hash WORKING_DOMAIN))"
    by (rule sum.collapse(2) [OF working_domain_encodes, symmetric])
  from local_hash_is_not_typed_data_hash
    [of example_order "projr (encodeOrderFields example_order)" toy_hash WORKING_DOMAIN
        "projr (domainEncoding toy_hash WORKING_DOMAIN)"] e d
  show ?thesis by blast
qed

text \<open>
  C8. The salt is part of what both functions hash: two orders with different salts
  have different encodings. So \<open>createOrderHash\<close> gives them one hash exactly when the
  hash function collides on the two encodings, and \<open>generateOrderHash\<close> does exactly
  when it collides on the two struct encodings or on the two typed-data encodings. With
  a collision-free hash the hashes differ.
\<close>

theorem order_hash_depends_on_salt:
  "salt o1 \<noteq> salt o2 \<and> encodeOrderFields o1 = Inr e1 \<and> encodeOrderFields o2 = Inr e2
     \<and> domainEncoding H d = Inr de \<longrightarrow>
   e1 \<noteq> e2
   \<and> ((createOrderHash H o1 = createOrderHash H o2) = hash_collision H e1 e2)
   \<and> ((generateOrderHash H o1 d = generateOrderHash H o2 d) =
        (hash_collision H (abi_bytes32 (H (toUtf8Bytes ORDER_TYPE_STRING)) @ e1)
                          (abi_bytes32 (H (toUtf8Bytes ORDER_TYPE_STRING)) @ e2)
         \<or> hash_collision H
              (typedDataEncoding (H de)
                 (H (abi_bytes32 (H (toUtf8Bytes ORDER_TYPE_STRING)) @ e1)))
              (typedDataEncoding (H de)
                 (H (abi_bytes32 (H (toUtf8Bytes ORDER_TYPE_STRING)) @ e2)))))"
proof (intro impI, elim conjE)
  assume s: "salt o1 \<noteq> salt o2" and e1: "encodeOrderFields o1 = Inr e1"
    and e2: "encodeOrderFields o2 = Inr e2" and de: "domainEncoding H d = Inr de"
  let ?T = "abi_bytes32 (H (toUtf8Bytes ORDER_TYPE_STRING))"
  have ne: "e1 \<noteq> e2" using encodings_differ [OF s e1 e2] .
  have c: "(createOrderHash H o1 = createOrderHash H o2) = hash_collision H e1 e2"
    using ne by (simp add: createOrderHash_def sbind_def e1 e2 hash_collision_def)
  have g: "(generateOrderHash H o1 d = generateOrderHash H o2 d) =
        (hash_collision H (?T @ e1) (?T @ e2)
         \<or> hash_collision H (typedDataEncoding (H de) (H (?T @ e1)))
                             (typedDataEncoding (H de) (H (?T @ e2))))"
    using ne typedDataEncoding_inj [of "H de" "H (?T @ e1)" "H (?T @ e2)"]
    by (auto simp add: generateOrderHash_def structEncoding_def sbind_def e1 e2 de
        hash_collision_def)
  from ne c g show "e1 \<noteq> e2
   \<and> ((createOrderHash H o1 = createOrderHash H o2) = hash_collision H e1 e2)
   \<and> ((generateOrderHash H o1 d = generateOrderHash H o2 d) =
        (hash_collision H (?T @ e1) (?T @ e2)
         \<or> hash_collision H (typedDataEncoding (H de) (H (?T @ e1)))
                             (typedDataEncoding (H de) (H (?T @ e2)))))"
    by blast
qed

theorem order_hash_depends_on_salt_witness:
  "projr (encodeOrderFields example_order)
     \<noteq> projr (encodeOrderFields (example_order\<lparr>salt := 1700000000001\<rparr>))
   \<and> ((createOrderHash toy_hash example_order
         = createOrderHash toy_hash (example_order\<lparr>salt := 1700000000001\<rparr>)) =
       hash_collision toy_hash (projr (encodeOrderFields example_order))
         (projr (encodeOrderFields (example_order\<lparr>salt := 1700000000001\<rparr>))))"
proof -
  have s: "salt example_order \<noteq> salt (example_order\<lparr>salt := 1700000000001\<rparr>)"
    by (simp add: example_order_def)
  have e1: "encodeOrderFields example_order = Inr (projr (encodeOrderFields example_order))"
    by (rule sum.collapse(2) [OF example_order_encodes, symmetric])
  have e2: "encodeOrderFields (example_order\<lparr>salt := 1700000000001\<rparr>)
      = Inr (projr (encodeOrderFields (example_order\<lparr>salt := 1700000000001\<rparr>)))"
    by (rule sum.collapse(2) [OF example_order_salt_encodes, symmetric])
  have d: "domainEncoding toy_hash WORKING_DOMAIN
             = Inr (projr (domainEncoding toy_hash WORKING_DOMAIN))"
    by (rule sum.collapse(2) [OF working_domain_encodes, symmetric])
  from order_hash_depends_on_salt
    [of example_order "example_order\<lparr>salt := 1700000000001\<rparr>"
        "projr (encodeOrderFields example_order)"
        "projr (encodeOrderFields (example_order\<lparr>salt := 1700000000001\<rparr>))"
        toy_hash WORKING_DOMAIN "projr (domainEncoding toy_hash WORKING_DOMAIN)"]
    s e1 e2 d
  show ?thesis by blast
qed

section \<open>Router swaps: slippage bound and deadline\<close>

lemma bigint_div_nonneg: "0 \<le> a \<Longrightarrow> 0 < b \<Longrightarrow> bigint_div a b = a div b"
  by (cases "a = 0") (simp_all add: bigint_div_def)

lemma floor_95: "\<lfloor>real_of_int E * 95 / 100\<rfloor> = E * 95 div 100"
proof -
  have "real_of_int E * 95 / 100 = real_of_int (E * 95) / real_of_int 100" by simp
  then show ?thesis by (simp only: floor_divide_of_int_eq)
qed

lemma swapETHForUSDC_calls:
  assumes "sw_getSigner env = Inr w" "sw_amountIn env = Inr a" "sw_amountsOut env = Inr amounts"
    "1 < length amounts" "0 \<le> amounts ! 1"
  shows "fst (swapETHForUSDC env) =
     [GetSigner, GetAmountsOut a [WETH_ADDRESS, USDC_ADDRESS],
      SwapExactETHForTokens \<lfloor>real_of_int (amounts ! 1) * 95 / 100\<rfloor>
        [WETH_ADDRESS, USDC_ADDRESS] w (sw_now env div 1000 + 1200) a]
     @ (case sw_swapTx env of Inl e \<Rightarrow> [] | Inr t \<Rightarrow> [AwaitTx SwapTx (hash t)])"
  using assms unfolding swapETHForUSDC_def Let_def floor_95
  by (simp add: run_simps result_at_def bigint_div_nonneg split: sum.split)

lemma executeSwap_calls:
  assumes "sw_getSigner env = Inr w" "sw_amountIn env = Inr a" "sw_amountsOut env = Inr amounts"
    "1 < length amounts" "0 \<le> amounts ! 1"
  shows "fst (executeSwap env) =
     [GetSigner, GetAmountsOut a [WETH_ADDRESS, USDC_ADDRESS],
      SwapExactETHForTokens \<lfloor>real_of_int (amounts ! 1) * 95 / 100\<rfloor>
        [WETH_ADDRESS, USDC_ADDRESS] w (sw_now env div 1000 + 1200) a]
     @ (case sw_swapTx env of Inl e \<Rightarrow> [] | Inr t \<Rightarrow> [AwaitTx SwapTx (hash t)])"
  using assms unfolding executeSwap_def Let_def floor_95
  by (simp add: run_simps result_at_def bigint_div_nonneg split: sum.split)

text \<open>
  C6. In \<open>WorkingUniswapDemo.swapETHForUSDC\<close> and \<open>SimpleUniswapDemo.executeSwap\<close>,
  once the signer, the amount and a quote with a second entry \<open>E \<ge> 0\<close> are there, the
  calls made are: read the signer, ask for the quote, and submit one swap whose minimum
  output is \<open>floor(E * 95 / 100)\<close> and whose deadline is the clock reading in whole
  seconds plus 1200; the confirmation is awaited when the submission succeeds.
\<close>

theorem router_swap_minimum_and_deadline:
  "sw_getSigner env = Inr w \<and> sw_amountIn env = Inr a \<and> sw_amountsOut env = Inr amounts
     \<and> 1 < length amounts \<and> 0 \<le> amounts ! 1 \<longrightarrow>
   fst (swapETHForUSDC env) =
     [GetSigner, GetAmountsOut a [WETH_ADDRESS, USDC_ADDRESS],
      SwapExactETHForTokens \<lfloor>real_of_int (amounts ! 1) * 95 / 100\<rfloor>
        [WETH_ADDRESS, USDC_ADDRESS] w (sw_now env div 1000 + 1200) a]
     @ (case sw_swapTx env of Inl e \<Rightarrow> [] | Inr t \<Rightarrow> [AwaitTx SwapTx (hash t)])
   \<and> fst (executeSwap env) =
     [GetSigner, GetAmountsOut a [WETH_ADDRESS, USDC_ADDRESS],
      SwapExactETHForTokens \<lfloor>real_of_int (amounts ! 1) * 95 / 100\<rfloor>
        [WETH_ADDRESS, USDC_ADDRESS] w (sw_now env div 1000 + 1200) a]
     @ (case sw_swapTx env of Inl e \<Rightarrow> [] | Inr t \<Rightarrow> [AwaitTx SwapTx (hash t)])"
  using swapETHForUSDC_calls executeSwap_calls by blast

theorem router_swap_minimum_and_deadline_witness:
  "fst (swapETHForUSDC example_swap_env) =
     [GetSigner, GetAmountsOut (10 ^ 18) [WETH_ADDRESS, USDC_ADDRESS],
      SwapExactETHForTokens 2366450000 [WETH_ADDRESS, USDC_ADDRESS] example_wallet
        1700001200 (10 ^ 18),
      AwaitTx SwapTx ''0xf1'']
   \<and> fst (executeSwap example_swap_env) =
     [GetSigner, GetAmountsOut (10 ^ 18) [WETH_ADDRESS, USDC_ADDRESS],
      SwapExactETHForTokens 2366450000 [WETH_ADDRESS, USDC_ADDRESS] example_wallet
        1700001200 (10 ^ 18),
      AwaitTx SwapTx ''0xf1'']"
proof -
  have h: "sw_getSigner example_swap_env = Inr example_wallet
      \<and> sw_amountIn example_swap_env = Inr (10 ^ 18)
      \<and> sw_amountsOut example_swap_env = Inr [10 ^ 18, 2491000001]
      \<and> 1 < length [10 ^ 18, 2491000001 :: int] \<and> 0 \<le> [10 ^ 18, 2491000001 :: int] ! 1"
    by (simp add: example_swap_env_def)
  have v: "\<lfloor>real_of_int ([10 ^ 18, 2491000001] ! 1) * 95 / 100\<rfloor> = 2366450000"
    unfolding floor_95 by simp
  have t: "sw_swapTx example_swap_env = Inr (ok_tx ''0xf1'')"
    "sw_now example_swap_env div 1000 + 1200 = 1700001200"
    "hash (ok_tx ''0xf1'') = ''0xf1''"
    by (simp_all add: example_swap_env_def ok_tx_def)
  from router_swap_minimum_and_deadline
    [of example_swap_env example_wallet "10 ^ 18" "[10 ^ 18, 2491000001]"] h
  show ?thesis unfolding v t by (simp add: ok_tx_def)
qed

section \<open>Approval before a fill\<close>










section \<open>Balance helpers never throw\<close>

text \<open>
  C10. \<open>checkTokenBalances\<close>, \<open>checkDemoBalances\<close> and \<open>checkBalances\<close> always return:
  when one of the balance calls throws, every field of the result is the string \<open>0\<close>;
  when all succeed, the fields are the formatted balances.
\<close>

theorem balance_helpers_total:
  "snd (checkTokenBalances fmt env w) =
     Inr (if isl (bq_eth env) \<or> isl (bq_weth env) \<or> isl (bq_usdc env)
          then \<lparr>b_eth = ''0'', b_weth = ''0'', b_usdc = ''0''\<rparr>
          else \<lparr>b_eth = fmt 18 (projr (bq_eth env)), b_weth = fmt 18 (projr (bq_weth env)),
                b_usdc = fmt 6 (projr (bq_usdc env))\<rparr>)
   \<and> snd (checkDemoBalances fmt env w) =
     Inr (if isl (bq_eth env) \<or> isl (bq_weth env) \<or> isl (bq_usdc env)
          then \<lparr>b_eth = ''0'', b_weth = ''0'', b_usdc = ''0''\<rparr>
          else \<lparr>b_eth = fmt 18 (projr (bq_eth env)), b_weth = fmt 18 (projr (bq_weth env)),
                b_usdc = fmt 6 (projr (bq_usdc env))\<rparr>)
   \<and> snd (checkBalances fmt env w) =
     Inr (if isl (bq_eth env) \<or> isl (bq_usdc env)
          then \<lparr>b2_eth = ''0'', b2_usdc = ''0''\<rparr>
          else \<lparr>b2_eth = fmt 18 (projr (bq_eth env)),
                b2_usdc = fmt 6 (projr (bq_usdc env))\<rparr>)"
proof -
  have token: "snd (checkTokenBalances fmt env w) =
     Inr (if isl (bq_eth env) \<or> isl (bq_weth env) \<or> isl (bq_usdc env)
          then \<lparr>b_eth = ''0'', b_weth = ''0'', b_usdc = ''0''\<rparr>
          else \<lparr>b_eth = fmt 18 (projr (bq_eth env)), b_weth = fmt 18 (projr (bq_weth env)),
                b_usdc = fmt 6 (projr (bq_usdc env))\<rparr>)"
    unfolding checkTokenBalances_def try_catch_proj
    by (simp add: run_simps split: sum.split)
  have demo: "snd (checkDemoBalances fmt env w) =
     Inr (if isl (bq_eth env) \<or> isl (bq_weth env) \<or> isl (bq_usdc env)
          then \<lparr>b_eth = ''0'', b_weth = ''0'', b_usdc = ''0''\<rparr>
          else \<lparr>b_eth = fmt 18 (projr (bq_eth env)), b_weth = fmt 18 (projr (bq_weth env)),
                b_usdc = fmt 6 (projr (bq_usdc env))\<rparr>)"
    unfolding checkDemoBalances_def try_catch_proj
    by (simp add: run_simps split: sum.split)
  have two: "snd (checkBalances fmt env w) =
     Inr (if isl (bq_eth env) \<or> isl (bq_usdc env)
          then \<lparr>b2_eth = ''0'', b2_usdc = ''0''\<rparr>
          else \<lparr>b2_eth = fmt 18 (projr (bq_eth env)),
                b2_usdc = fmt 6 (projr (bq_usdc env))\<rparr>)"
    unfolding checkBalances_def try_catch_proj
    by (simp add: run_simps split: sum.split)
  from token demo two show ?thesis by blast
qed

end
